theory Spec2Isabelle
  imports Complex_Main
begin

section \<open>Python values, exceptions and calendar days\<close>

text \<open>
  The exceptions the modelled code can raise.  \<open>RequestException\<close> stands for the whole
  family of the HTTP library (connection errors, HTTP error statuses); \<open>NoDataStored\<close> is
  the \<open>Exception("No data was stored after collection")\<close> of
  \<open>initialize_historical_data\<close>.
\<close>

datatype exn =
    RequestException | JSONDecodeError | KeyError | IndexError | TypeError | ValueError
  | AttributeError | OverflowError | UnboundLocalError | DatabaseError | OSError | UnpicklingError
  | NoDataStored

text \<open>
  A Python value as it comes out of a JSON document or sits in a cell of a data frame.
  Python floats are read as real numbers (arithmetic is exact, there is no NaN: a missing
  number is \<open>PNone\<close>); ints and floats are not told apart.  A dict keeps its items in
  insertion order; a key is looked up with \<open>map_of\<close>.
\<close>

datatype pyval =
    PNone | PBool bool | PNum real | PStr string
  | PList "pyval list" | PDict "(string \<times> pyval) list"

text \<open>A number where Python accepts one in arithmetic and comparisons (\<open>bool\<close> is an \<open>int\<close>).\<close>

fun as_number :: "pyval \<Rightarrow> real option" where
  "as_number (PNum x) = Some x"
| "as_number (PBool b) = Some (if b then 1 else 0)"
| "as_number _ = None"

text \<open>Sequencing: an exception ends the computation.\<close>

definition and_then :: "exn + 'a \<Rightarrow> ('a \<Rightarrow> exn + 'b) \<Rightarrow> exn + 'b" where
  "and_then m f = (case m of Inl e \<Rightarrow> Inl e | Inr x \<Rightarrow> f x)"

text \<open>Truthiness: what \<open>not v\<close> and \<open>bool(v)\<close> test.\<close>

fun truthy :: "pyval \<Rightarrow> bool" where
  "truthy PNone = False"
| "truthy (PBool b) = b"
| "truthy (PNum x) = (x \<noteq> 0)"
| "truthy (PStr s) = (s \<noteq> [])"
| "truthy (PList xs) = (xs \<noteq> [])"
| "truthy (PDict kvs) = (kvs \<noteq> [])"

text \<open>
  A calendar day is the number of days since 1970-01-01, so that adding a day is adding
  one and the order of days is the order of integers.  The two conversions are the usual
  era-based ones for the proleptic Gregorian calendar.
\<close>

type_synonym date = int


definition civil_from_days :: "date \<Rightarrow> int \<times> int \<times> int" where
  "civil_from_days z =
     (let z' = z + 719468;
          era = z' div 146097;
          doe = z' - era * 146097;
          yoe = (doe - doe div 1460 + doe div 36524 - doe div 146096) div 365;
          doy = doe - (365 * yoe + yoe div 4 - yoe div 100);
          mp = (5 * doy + 2) div 153;
          d = doy - (153 * mp + 2) div 5 + 1;
          m = (if mp < 10 then mp + 3 else mp - 9)
      in (yoe + era * 400 + (if m \<le> 2 then 1 else 0), m, d))"

text \<open>\<open>Timestamp.dayofweek\<close> (Monday is 0; 1970-01-01 was a Thursday) and \<open>.month\<close>.\<close>

definition dayofweek :: "date \<Rightarrow> int" where
  "dayofweek z = (z + 3) mod 7"

definition month :: "date \<Rightarrow> int" where
  "month z = fst (snd (civil_from_days z))"

section \<open>Flight records\<close>

text \<open>
  The dict \<open>flight_data\<close> that \<open>_generate_flight_data\<close> builds, which is also one row of
  a data frame and of the table \<open>flight_data\<close>.  The weather cells hold whatever value the
  weather snapshot held.
\<close>

record flight =
  date :: date
  airline :: string
  origin :: string
  destination :: string
  temperature :: pyval
  precipitation :: pyval
  weather_condition :: pyval
  wind_speed :: pyval
  wind_direction :: pyval
  visibility :: pyval
  cloud_coverage :: pyval
  humidity :: pyval
  pressure :: pyval
  delay_minutes :: pyval
  weather_delay :: pyval

section \<open>analysis.py\<close>

subsection \<open>Numeric columns and quantiles\<close>

text \<open>
  A numeric column of a frame: \<open>None\<close> is a missing value (NaN).  A cell that is not a
  number makes every numeric operation on the column raise \<open>TypeError\<close>.
\<close>

fun float_cell :: "pyval \<Rightarrow> exn + real option" where
  "float_cell PNone = Inr None"
| "float_cell (PNum x) = Inr (Some x)"
| "float_cell (PBool b) = Inr (Some (if b then 1 else 0))"
| "float_cell _ = Inl TypeError"

fun float_column :: "pyval list \<Rightarrow> exn + real option list" where
  "float_column [] = Inr []"
| "float_column (v # vs) =
     (case float_cell v of
        Inl e \<Rightarrow> Inl e
      | Inr c \<Rightarrow> (case float_column vs of Inl e \<Rightarrow> Inl e | Inr cs \<Rightarrow> Inr (c # cs)))"

fun dropna :: "real option list \<Rightarrow> real list" where
  "dropna [] = []"
| "dropna (None # cs) = dropna cs"
| "dropna (Some x # cs) = x # dropna cs"

text \<open>
  \<open>Series.quantile(q)\<close> with the default linear interpolation, for \<open>0 \<le> q \<le> 1\<close>:
  missing values are skipped, and a column without values has the quantile NaN.
\<close>

definition quantile :: "real \<Rightarrow> real option list \<Rightarrow> real option" where
  "quantile q col =
     (let v = sort (dropna col); n = length v in
      if n = 0 then None
      else
        let pos = real (n - 1) * q; lo = nat \<lfloor>pos\<rfloor>; frac = pos - real lo in
        if lo + 1 < n then Some (v ! lo + (v ! (lo + 1) - v ! lo) * frac)
        else Some (v ! (n - 1)))"

text \<open>Comparisons of floats: with a NaN on either side they are false.\<close>

fun nan_less :: "real option \<Rightarrow> real option \<Rightarrow> bool" where
  "nan_less (Some x) (Some y) = (x < y)"
| "nan_less _ _ = False"

fun nan_mult :: "real option \<Rightarrow> real option \<Rightarrow> real option" where
  "nan_mult (Some x) (Some y) = Some (x * y)"
| "nan_mult _ _ = None"

subsection \<open>Feature engineering at training time\<close>

record features =
  f_temperature :: "real option"
  f_precipitation :: "real option"
  f_day_of_week :: int
  f_month :: int
  f_temp_precip_interaction :: "real option"
  f_severe_weather :: bool

text \<open>
  \<open>engineer_features\<close> inside \<open>train_model\<close>: the columns it adds to a copy of the frame.
  Severe weather is a temperature below the frame's 20th percentile together with a
  precipitation above the frame's 80th percentile.
\<close>

definition engineer_features :: "flight list \<Rightarrow> exn + features list" where
  "engineer_features data =
     (case float_column (map temperature data) of
        Inl e \<Rightarrow> Inl e
      | Inr ts \<Rightarrow>
          (case float_column (map precipitation data) of
             Inl e \<Rightarrow> Inl e
           | Inr ps \<Rightarrow>
               Inr (map (\<lambda>(r, t, p).
                      \<lparr> f_temperature = t,
                        f_precipitation = p,
                        f_day_of_week = dayofweek (date r),
                        f_month = month (date r),
                        f_temp_precip_interaction = nan_mult t p,
                        f_severe_weather =
                          (nan_less t (quantile (2 / 10) ts) \<and> nan_less (quantile (8 / 10) ps) p) \<rparr>)
                    (zip data (zip ts ps)))))"

subsection \<open>Prediction with an interval\<close>

text \<open>
  The trained bundle, as far as \<open>predict_with_interval\<close> reads it: the fitted scaler's
  \<open>transform\<close>, the regressor's \<open>predict\<close> on one row, and the cross-validated RMSE.
\<close>

record trained_model =
  scaler_transform :: "real list \<Rightarrow> real list"
  model_predict :: "real list \<Rightarrow> real"
  cv_rmse :: real

record prediction_result =
  prediction :: real
  lower_bound :: real
  upper_bound :: real
  confidence :: real

text \<open>
  The one-row frame \<open>features\<close> that \<open>predict_with_interval\<close> builds, in the column order
  temperature, precipitation, day_of_week, month, temp_precip_interaction, severe_weather
  (a boolean cell is 1 or 0 for the scaler).  Here severe weather is a temperature above
  the frame's 80th percentile together with a precipitation above the frame's 80th
  percentile.
\<close>

definition inference_severe_weather :: "real option list \<Rightarrow> real option list \<Rightarrow> real \<Rightarrow> real \<Rightarrow> bool" where
  "inference_severe_weather ts ps temp precip =
     (nan_less (quantile (8 / 10) ts) (Some temp) \<and> nan_less (quantile (8 / 10) ps) (Some precip))"

definition inference_features :: "flight list \<Rightarrow> real \<Rightarrow> real \<Rightarrow> date \<Rightarrow> exn + real list" where
  "inference_features df temp precip d =
     (case float_column (map temperature df) of
        Inl e \<Rightarrow> Inl e
      | Inr ts \<Rightarrow>
          (case float_column (map precipitation df) of
             Inl e \<Rightarrow> Inl e
           | Inr ps \<Rightarrow>
               Inr [temp, precip, of_int (dayofweek d), of_int (month d), temp * precip,
                    (if inference_severe_weather ts ps temp precip then 1 else 0)]))"

text \<open>
  \<open>predict_with_interval(df, model, temp, precip, date, confidence)\<close>.  With \<open>date=None\<close>
  the body calls its own parameter \<open>date\<close>, which is \<open>None\<close>: a \<open>TypeError\<close>.
  \<open>max(0, x)\<close> is \<open>x\<close> when \<open>x > 0\<close> and \<open>0\<close> otherwise.
\<close>

definition predict_with_interval ::
  "flight list \<Rightarrow> trained_model \<Rightarrow> real \<Rightarrow> real \<Rightarrow> date option \<Rightarrow> real \<Rightarrow> exn + prediction_result" where
  "predict_with_interval df model temp precip date_opt conf =
     (case date_opt of
        None \<Rightarrow> Inl TypeError
      | Some d \<Rightarrow>
          (case inference_features df temp precip d of
             Inl e \<Rightarrow> Inl e
           | Inr feats \<Rightarrow>
               let features_scaled = scaler_transform model feats;
                   pred = model_predict model features_scaled;
                   margin = cv_rmse model * (196 / 100)
               in Inr \<lparr> prediction = pred,
                        lower_bound = (if pred - margin > 0 then pred - margin else 0),
                        upper_bound = pred + margin,
                        confidence = conf \<rparr>))"

subsection \<open>Loading the persisted model\<close>

text \<open>
  The state of \<open>results.pkl\<close>: not there, there but not readable, readable but not a
  pickle of a model bundle, or the pickle of a bundle.
\<close>

datatype 'm snapshot_file = NoFile | Unreadable | Corrupt | Pickled 'm

text \<open>\<open>open('results.pkl', 'rb')\<close> followed by \<open>pickle.load(file)\<close>.\<close>

fun load_pickle :: "'m snapshot_file \<Rightarrow> exn + 'm" where
  "load_pickle NoFile = Inl OSError"
| "load_pickle Unreadable = Inl OSError"
| "load_pickle Corrupt = Inl UnpicklingError"
| "load_pickle (Pickled m) = Inr m"

text \<open>
  \<open>get_model\<close>: the handler logs the error and falls through to \<open>return results\<close>, and
  \<open>results\<close> was never assigned.
\<close>

definition get_model :: "'m snapshot_file \<Rightarrow> exn + 'm" where
  "get_model f = (case load_pickle f of Inl e \<Rightarrow> Inl UnboundLocalError | Inr results \<Rightarrow> Inr results)"

subsection \<open>Severity buckets\<close>

text \<open>
  \<open>pd.qcut(x, q=4, labels=[4 labels], duplicates='drop')\<close>: the five bin edges are the
  quantiles at 0, 1/4, 1/2, 3/4 and 1 of the values present; equal edges are dropped, and
  then four labels for fewer than four bins is a \<open>ValueError\<close>.  A value \<open>x\<close> falls in the
  bin numbered by the count of edges below it (\<open>searchsorted\<close> from the left), the lowest
  edge being included in the first bin.
\<close>

definition quartile_edges :: "real option list \<Rightarrow> real option list" where
  "quartile_edges col = map (\<lambda>q. quantile q col) [0, 1 / 4, 1 / 2, 3 / 4, 1]"

fun unique :: "'a list \<Rightarrow> 'a list" where
  "unique [] = []"
| "unique (x # xs) = x # unique (filter (\<lambda>y. y \<noteq> x) xs)"

definition bin_id :: "real list \<Rightarrow> real \<Rightarrow> nat" where
  "bin_id bins x = (if x = hd bins then 1 else length (filter (\<lambda>b. b < x) bins))"

definition qcut :: "real option list \<Rightarrow> string list \<Rightarrow> exn + string option list" where
  "qcut col labels =
     (let bins = unique (quartile_edges col) in
      if length labels \<noteq> length bins - 1 then Inl ValueError
      else Inr (map (\<lambda>c. case c of
                            None \<Rightarrow> None
                          | Some x \<Rightarrow>
                              (let i = bin_id (dropna bins) x in
                               if i = 0 \<or> i = length bins then None else Some (labels ! (i - 1))))
                    col))"

text \<open>
  The severity step of \<open>perform_weather_analysis\<close> (the \<open>try\<close> block and its handler):
  the column \<open>weather_severity\<close> it adds to the frame.  A missing category prints as
  \<open>nan\<close> under \<open>astype(str)\<close>.
\<close>

definition weather_severity :: "flight list \<Rightarrow> string list" where
  "weather_severity df =
     (case float_column (map delay_minutes df) of
        Inl e \<Rightarrow> replicate (length df) ''Low''
      | Inr severity_score \<Rightarrow>
          (case qcut severity_score [''Low'', ''Moderate'', ''High'', ''Severe''] of
             Inl e \<Rightarrow> replicate (length df) ''Low''
           | Inr cats \<Rightarrow> map (\<lambda>c. case c of None \<Rightarrow> ''nan'' | Some l \<Rightarrow> l) cats))"

section \<open>weather_service.py\<close>

subsection \<open>Subscripts and \<open>dict.get\<close>\<close>

text \<open>\<open>v[key]\<close> for a string key: only a dict has string keys.\<close>

fun subscript :: "pyval \<Rightarrow> string \<Rightarrow> exn + pyval" where
  "subscript (PDict kvs) k = (case map_of kvs k of None \<Rightarrow> Inl KeyError | Some v \<Rightarrow> Inr v)"
| "subscript _ k = Inl TypeError"

text \<open>\<open>v[0]\<close>: the first element of a list, the first character of a string.\<close>

fun subscript0 :: "pyval \<Rightarrow> exn + pyval" where
  "subscript0 (PList []) = Inl IndexError"
| "subscript0 (PList (x # xs)) = Inr x"
| "subscript0 (PStr []) = Inl IndexError"
| "subscript0 (PStr (c # cs)) = Inr (PStr [c])"
| "subscript0 (PDict kvs) = Inl KeyError"
| "subscript0 _ = Inl TypeError"

text \<open>\<open>v.get(key, default)\<close>: only a dict has the method.\<close>

fun dict_get :: "pyval \<Rightarrow> string \<Rightarrow> pyval \<Rightarrow> exn + pyval" where
  "dict_get (PDict kvs) k dflt = Inr (case map_of kvs k of None \<Rightarrow> dflt | Some v \<Rightarrow> v)"
| "dict_get _ k dflt = Inl AttributeError"

text \<open>\<open>properties.get(field, {}).get('value', default)\<close>.\<close>

definition field_value :: "pyval \<Rightarrow> string \<Rightarrow> pyval \<Rightarrow> exn + pyval" where
  "field_value properties field dflt =
     (case dict_get properties field (PDict []) of
        Inl e \<Rightarrow> Inl e
      | Inr obj \<Rightarrow> dict_get obj ''value'' dflt)"

subsection \<open>Time, text and the outside world\<close>

text \<open>
  An instant is a number of microseconds since 1970-01-01T00:00:00, so that the difference
  of two instants is a \<open>timedelta\<close>.
\<close>

type_synonym time = int

definition microseconds_per_day :: int where
  "microseconds_per_day = 86400000000"

definition date_of :: "time \<Rightarrow> date" where
  "date_of t = t div microseconds_per_day"

definition cache_duration :: int where
  "cache_duration = 30 * 60 * 1000000"

fun pad :: "nat \<Rightarrow> int \<Rightarrow> string" where
  "pad 0 n = []"
| "pad (Suc w) n = pad w (n div 10) @ [''0123456789'' ! nat (n mod 10)]"

text \<open>\<open>date.isoformat()\<close>: \<open>YYYY-MM-DD\<close>, for the years 0001 to 9999 a \<open>date\<close> can hold.\<close>

definition isoformat :: "date \<Rightarrow> string" where
  "isoformat z = (case civil_from_days z of (y, m, d) \<Rightarrow> pad 4 y @ ''-'' @ pad 2 m @ ''-'' @ pad 2 d)"

text \<open>\<open>datetime.isoformat()\<close>: the microseconds are printed only when they are not zero.\<close>

definition isoformat_datetime :: "time \<Rightarrow> string" where
  "isoformat_datetime t =
     (let us = t mod microseconds_per_day; s = us div 1000000; f = us mod 1000000 in
      isoformat (date_of t) @ ''T'' @ pad 2 (s div 3600) @ '':'' @ pad 2 (s div 60 mod 60) @ '':''
        @ pad 2 (s mod 60) @ (if f = 0 then [] else ''.'' @ pad 6 f))"

text \<open>
  What one HTTP request comes back with: no response at all (the request raises), or a
  status code and a body, which is a JSON document or not.
\<close>

datatype response = ConnectionFailed | Response nat "pyval option"

text \<open>
  The world as one call of the service sees it: the network, the clock (the few readings
  of the clock within one call are taken to be the same instant), and two built-ins of
  Python that are not modelled further: \<open>str(v)\<close> of a value that is not a string, and
  \<open>float(s)\<close> of a string (\<open>None\<close> when it raises \<open>ValueError\<close>).
\<close>

record env =
  net :: "string \<Rightarrow> response"
  now :: time
  py_str :: "pyval \<Rightarrow> string"
  py_float :: "string \<Rightarrow> real option"

definition str_of :: "env \<Rightarrow> pyval \<Rightarrow> string" where
  "str_of w v = (case v of PStr s \<Rightarrow> s | _ \<Rightarrow> py_str w v)"

text \<open>
  The magnitude from which an int has no float, \<open>2 ^ 1024 - 2 ^ 970\<close>: every float is
  smaller, so a number that large is an int, and converting it raises \<open>OverflowError\<close>.
\<close>

definition float_limit :: real where
  "float_limit =
     179769313486231580793728971405303415079934132710037826936173778980444968292764750946649017977587207096330286416692887910946555547851940402630657488671505820681908902000708383676273854845817711531764475730270069855571366959622842914819860834936475292719074168444365510704342711559699508093042880177904174497792"

text \<open>\<open>float(v)\<close>.\<close>

definition to_float :: "env \<Rightarrow> pyval \<Rightarrow> exn + real" where
  "to_float w v =
     (case v of
        PNum x \<Rightarrow> if float_limit \<le> \<bar>x\<bar> then Inl OverflowError else Inr x
      | PBool b \<Rightarrow> Inr (if b then 1 else 0)
      | PStr s \<Rightarrow> (case py_float w s of None \<Rightarrow> Inl ValueError | Some x \<Rightarrow> Inr x)
      | _ \<Rightarrow> Inl TypeError)"

text \<open>\<open>str.upper()\<close> on ASCII letters.\<close>

definition upper_char :: "char \<Rightarrow> char" where
  "upper_char c =
     (case map_of (zip ''abcdefghijklmnopqrstuvwxyz'' ''ABCDEFGHIJKLMNOPQRSTUVWXYZ'') c of
        None \<Rightarrow> c
      | Some u \<Rightarrow> u)"

definition upper :: "string \<Rightarrow> string" where
  "upper s = map upper_char s"

text \<open>\<open>key in text\<close> for strings.\<close>

fun starts_with :: "string \<Rightarrow> string \<Rightarrow> bool" where
  "starts_with [] s = True"
| "starts_with (k # ks) [] = False"
| "starts_with (k # ks) (c # cs) = (k = c \<and> starts_with ks cs)"

fun contains :: "string \<Rightarrow> string \<Rightarrow> bool" where
  "contains k [] = (k = [])"
| "contains k (c # cs) = (starts_with k (c # cs) \<or> contains k cs)"

subsection \<open>Conversions of the observation\<close>

text \<open>
  The three converters catch \<open>ValueError\<close> and \<open>TypeError\<close> and answer with their
  fallback; an \<open>OverflowError\<close> of \<open>float(v)\<close> passes through them.
\<close>

definition celsius_to_fahrenheit :: "env \<Rightarrow> pyval \<Rightarrow> exn + real" where
  "celsius_to_fahrenheit w celsius_value =
     (if celsius_value \<noteq> PNone
      then (case to_float w celsius_value of
              Inl e \<Rightarrow> if e = ValueError \<or> e = TypeError then Inr 68 else Inl e
            | Inr c \<Rightarrow> Inr (c * 9 / 5 + 32))
      else Inr 68)"

definition ms_to_mph :: "env \<Rightarrow> pyval \<Rightarrow> exn + real" where
  "ms_to_mph w ms_value =
     (if ms_value \<noteq> PNone
      then (case to_float w ms_value of
              Inl e \<Rightarrow> if e = ValueError \<or> e = TypeError then Inr 0 else Inl e
            | Inr v \<Rightarrow> Inr (v * (2237 / 1000)))
      else Inr 0)"

definition m_to_miles :: "env \<Rightarrow> pyval \<Rightarrow> exn + real" where
  "m_to_miles w meters_value =
     (if meters_value \<noteq> PNone
      then (case to_float w meters_value of
              Inl e \<Rightarrow> if e = ValueError \<or> e = TypeError then Inr 10 else Inl e
            | Inr v \<Rightarrow> Inr (v * (621371 / 1000000000)))
      else Inr 10)"

definition condition_mapping :: "(string \<times> string) list" where
  "condition_mapping =
     [(''CLEAR'', ''Clear''), (''SUNNY'', ''Clear''), (''FAIR'', ''Clear''), (''MOSTLY CLEAR'', ''Clear''),
      (''PARTLY CLOUDY'', ''Clouds''), (''MOSTLY CLOUDY'', ''Clouds''), (''CLOUDY'', ''Clouds''),
      (''OVERCAST'', ''Clouds''),
      (''RAIN'', ''Rain''), (''LIGHT RAIN'', ''Rain''), (''HEAVY RAIN'', ''Rain''), (''DRIZZLE'', ''Rain''),
      (''SHOWERS'', ''Rain''),
      (''SNOW'', ''Snow''), (''LIGHT SNOW'', ''Snow''), (''HEAVY SNOW'', ''Snow''), (''SNOW SHOWERS'', ''Snow''),
      (''FOG'', ''Fog''), (''MIST'', ''Fog''), (''HAZE'', ''Fog''),
      (''THUNDERSTORM'', ''Thunderstorm''), (''THUNDERSTORMS'', ''Thunderstorm''), (''T-STORM'', ''Thunderstorm'')]"

fun first_match :: "(string \<times> string) list \<Rightarrow> string \<Rightarrow> string" where
  "first_match [] description_upper = ''Clear''"
| "first_match ((key, val) # rest) description_upper =
     (if contains key description_upper then val else first_match rest description_upper)"

definition map_weather_condition :: "env \<Rightarrow> pyval \<Rightarrow> string" where
  "map_weather_condition w noaa_description =
     (if \<not> truthy noaa_description then ''Clear''
      else first_match condition_mapping (upper (str_of w noaa_description)))"

definition coverage_values :: "(string \<times> real) list" where
  "coverage_values = [(''CLR'', 0), (''FEW'', 25), (''SCT'', 50), (''BKN'', 75), (''OVC'', 100), (''VV'', 100)]"

text \<open>What \<open>for layer in cloud_layers\<close> iterates over; a number or a bool is not iterable.\<close>

fun iterate :: "pyval \<Rightarrow> exn + pyval list" where
  "iterate (PList xs) = Inr xs"
| "iterate (PDict kvs) = Inr (map (\<lambda>(k, v). PStr k) kvs)"
| "iterate (PStr s) = Inr (map (\<lambda>c. PStr [c]) s)"
| "iterate _ = Inl TypeError"

fun coverage_loop :: "pyval list \<Rightarrow> real \<Rightarrow> exn + real" where
  "coverage_loop [] max_coverage = Inr max_coverage"
| "coverage_loop (layer # layers) max_coverage =
     (case dict_get layer ''amount'' (PStr ''CLR'') of
        Inl e \<Rightarrow> Inl e
      | Inr (PStr amount) \<Rightarrow>
          coverage_loop layers
            (max max_coverage (case map_of coverage_values (upper amount) of None \<Rightarrow> 0 | Some c \<Rightarrow> c))
      | Inr _ \<Rightarrow> Inl AttributeError)"

definition parse_cloud_coverage :: "pyval \<Rightarrow> real" where
  "parse_cloud_coverage cloud_layers =
     (if \<not> truthy cloud_layers then 0
      else (case iterate cloud_layers of
              Inl e \<Rightarrow> 0
            | Inr layers \<Rightarrow> (case coverage_loop layers 0 of Inl e \<Rightarrow> 0 | Inr c \<Rightarrow> c)))"

subsection \<open>The service\<close>

type_synonym snapshot = "(string \<times> pyval) list"

record cache_entry =
  entry_data :: snapshot
  entry_timestamp :: time

text \<open>
  The service object: its cache and its default snapshot.  \<open>sent\<close> is not a field of the
  class: it is the list of the URLs requested so far, oldest first.
\<close>

record weather_service =
  cache :: "string \<rightharpoonup> cache_entry"
  default_weather :: snapshot
  sent :: "string list"

text \<open>\<open>WeatherService.__init__\<close>, at the instant \<open>t\<close>.\<close>

definition new_weather_service :: "time \<Rightarrow> weather_service" where
  "new_weather_service t =
     \<lparr> cache = Map.empty,
       default_weather =
         [(''temperature'', PNum 68), (''feels_like'', PNum 65), (''humidity'', PNum 50),
          (''pressure'', PNum (101325 / 100)), (''wind_speed'', PNum 0), (''wind_direction'', PNum 0),
          (''visibility'', PNum 10), (''cloud_coverage'', PNum 0), (''weather_condition'', PStr ''Clear''),
          (''precipitation'', PNum 0), (''timestamp'', PStr (isoformat_datetime t))],
       sent = [] \<rparr>"

text \<open>\<open>requests.get(url)\<close>, \<open>raise_for_status()\<close> and \<open>.json()\<close>.\<close>

definition http_get_json :: "env \<Rightarrow> string \<Rightarrow> exn + pyval" where
  "http_get_json w url =
     (case net w url of
        ConnectionFailed \<Rightarrow> Inl RequestException
      | Response status body \<Rightarrow>
          if 400 \<le> status \<and> status < 600 then Inl RequestException
          else (case body of None \<Rightarrow> Inl JSONDecodeError | Some j \<Rightarrow> Inr j))"

text \<open>\<open>value / 100\<close> on the barometric pressure: a number is needed, and a quotient too large
  for a float raises.\<close>

definition pascal_to_hpa :: "pyval \<Rightarrow> exn + real" where
  "pascal_to_hpa v =
     (case as_number v of
        None \<Rightarrow> Inl TypeError
      | Some pascal \<Rightarrow> if float_limit \<le> \<bar>pascal / 100\<bar> then Inl OverflowError else Inr (pascal / 100))"

text \<open>
  The inner \<open>try\<close> of \<open>get_weather\<close>: the snapshot built from the observation's
  properties.  The steps run in the order of the source, and the first exception ends them.
\<close>

definition process_observation :: "env \<Rightarrow> pyval \<Rightarrow> exn + snapshot" where
  "process_observation w properties =
     and_then (field_value properties ''temperature'' PNone) (\<lambda>temp_value.
     and_then (field_value properties ''windChill'' PNone) (\<lambda>wind_chill.
     and_then (if wind_chill = PNone then field_value properties ''heatIndex'' PNone else Inr wind_chill)
       (\<lambda>feels_like_value.
     and_then (celsius_to_fahrenheit w temp_value) (\<lambda>temperature_f.
     and_then (celsius_to_fahrenheit w feels_like_value) (\<lambda>feels_like_f.
     and_then (field_value properties ''relativeHumidity'' (PNum 50)) (\<lambda>humidity_value.
     and_then (field_value properties ''barometricPressure'' (PNum 101325)) (\<lambda>pressure_value.
     and_then (pascal_to_hpa pressure_value) (\<lambda>pressure_hpa.
     and_then (field_value properties ''windSpeed'' (PNum 0)) (\<lambda>wind_speed_value.
     and_then (ms_to_mph w wind_speed_value) (\<lambda>wind_speed_mph.
     and_then (field_value properties ''windDirection'' (PNum 0)) (\<lambda>wind_direction_value.
     and_then (field_value properties ''visibility'' (PNum 10000)) (\<lambda>visibility_value.
     and_then (m_to_miles w visibility_value) (\<lambda>visibility_miles.
     and_then (dict_get properties ''layers'' (PList [])) (\<lambda>layers.
     and_then (dict_get properties ''textDescription'' (PStr ''Clear'')) (\<lambda>description.
     and_then (field_value properties ''precipitationLastHour'' (PNum 0)) (\<lambda>precipitation_value.
       Inr [(''temperature'', PNum temperature_f),
            (''feels_like'', PNum feels_like_f),
            (''humidity'', humidity_value),
            (''pressure'', PNum pressure_hpa),
            (''wind_speed'', PNum wind_speed_mph),
            (''wind_direction'', wind_direction_value),
            (''visibility'', PNum visibility_miles),
            (''cloud_coverage'', PNum (parse_cloud_coverage layers)),
            (''weather_condition'', PStr (map_weather_condition w description)),
            (''precipitation'', precipitation_value),
            (''timestamp'', PStr (isoformat_datetime (now w)))]))))))))))))))))"

text \<open>The URL of each of the three requests, from the airport's coordinates and from the
  document the request before returned.\<close>

definition points_url :: "env \<Rightarrow> (string \<times> pyval) list \<Rightarrow> exn + string" where
  "points_url w airport_data =
     (case map_of airport_data ''lat'' of
        None \<Rightarrow> Inl KeyError
      | Some lat \<Rightarrow>
          (case map_of airport_data ''lon'' of
             None \<Rightarrow> Inl KeyError
           | Some lon \<Rightarrow> Inr (''https://api.weather.gov/points/'' @ str_of w lat @ '','' @ str_of w lon)))"

definition observation_url :: "env \<Rightarrow> pyval \<Rightarrow> exn + string" where
  "observation_url w points_data =
     and_then (subscript points_data ''properties'') (\<lambda>properties.
     and_then (subscript properties ''observationStations'') (\<lambda>stations. Inr (str_of w stations)))"

definition latest_url :: "env \<Rightarrow> pyval \<Rightarrow> exn + string" where
  "latest_url w stations_data =
     and_then (subscript stations_data ''features'') (\<lambda>features.
     and_then (subscript0 features) (\<lambda>station.
     and_then (subscript station ''id'') (\<lambda>station_url.
       Inr (str_of w station_url @ ''/observations/latest''))))"

text \<open>
  The body of the outer \<open>try\<close> of \<open>get_weather\<close> after the cache check: the three requests
  and the processing of the observation.  The result comes with the URLs that were
  requested, whether the body raised or not.
\<close>

definition fetch_observation :: "env \<Rightarrow> (string \<times> pyval) list \<Rightarrow> (exn + snapshot) \<times> string list" where
  "fetch_observation w airport_data =
     (case points_url w airport_data of
        Inl e \<Rightarrow> (Inl e, [])
      | Inr u1 \<Rightarrow>
          (case and_then (http_get_json w u1) (observation_url w) of
             Inl e \<Rightarrow> (Inl e, [u1])
           | Inr u2 \<Rightarrow>
               (case and_then (http_get_json w u2) (latest_url w) of
                  Inl e \<Rightarrow> (Inl e, [u1, u2])
                | Inr u3 \<Rightarrow>
                    (and_then (http_get_json w u3) (\<lambda>current_data.
                       and_then (subscript current_data ''properties'') (process_observation w)),
                     [u1, u2, u3]))))"

text \<open>The cache check: the entry under the key, if there is one and it is younger than 30 minutes.\<close>

definition cache_key :: "string \<Rightarrow> time \<Rightarrow> string" where
  "cache_key airport_code target_date = airport_code @ ''_'' @ isoformat (date_of target_date)"

definition fresh_entry :: "env \<Rightarrow> weather_service \<Rightarrow> string \<Rightarrow> cache_entry option" where
  "fresh_entry w ws key =
     (case cache ws key of
        None \<Rightarrow> None
      | Some cache_entry \<Rightarrow> if now w - entry_timestamp cache_entry < cache_duration then Some cache_entry else None)"

text \<open>
  \<open>get_weather(airport_code, airport_data, target_date)\<close>: the snapshot returned and the
  service afterwards.  Every exception of the body is caught and answered with the default
  snapshot; a snapshot that was fetched is stored in the cache under the airport code.
\<close>

definition get_weather ::
  "env \<Rightarrow> weather_service \<Rightarrow> string \<Rightarrow> (string \<times> pyval) list \<Rightarrow> time option \<Rightarrow> snapshot \<times> weather_service" where
  "get_weather w ws airport_code airport_data target =
     (let target_date = (case target of None \<Rightarrow> now w | Some t \<Rightarrow> t) in
      case fresh_entry w ws (cache_key airport_code target_date) of
        Some cache_entry \<Rightarrow> (entry_data cache_entry, ws)
      | None \<Rightarrow>
          (case fetch_observation w airport_data of
             (Inl e, urls) \<Rightarrow> (default_weather ws, ws\<lparr>sent := sent ws @ urls\<rparr>)
           | (Inr weather_data, urls) \<Rightarrow>
               (weather_data,
                ws\<lparr>sent := sent ws @ urls,
                   cache := (cache ws)(airport_code \<mapsto>
                              \<lparr>entry_data = weather_data, entry_timestamp = now w\<rparr>)\<rparr>)))"




definition AIRPORT_COORDINATES :: "(string \<times> (string \<times> pyval) list) list" where
  "AIRPORT_COORDINATES =
     [(''SEA'', [(''lat'', PNum (474484 / 10000)), (''lon'', PNum (- (1223790 / 10000)))]),
      (''LAX'', [(''lat'', PNum (339416 / 10000)), (''lon'', PNum (- (1184085 / 10000)))]),
      (''LGA'', [(''lat'', PNum (407766 / 10000)), (''lon'', PNum (- (738742 / 10000)))]),
      (''DFW'', [(''lat'', PNum (328998 / 10000)), (''lon'', PNum (- (970403 / 10000)))]),
      (''MIA'', [(''lat'', PNum (257959 / 10000)), (''lon'', PNum (- (802870 / 10000)))])]"

subsection \<open>Failures of the external service\<close>














section \<open>data_collection.py\<close>

subsection \<open>The flight simulator\<close>

text \<open>
  The random source: the result of the \<open>k\<close>-th call of a \<open>numpy.random\<close> function made
  while one day is generated (calls are counted from 0).  A Poisson draw is a count; every
  other draw is a number, and nothing is assumed about which numbers a distribution can
  give.
\<close>

record randomness =
  poisson_at :: "nat \<Rightarrow> nat"
  sample_at :: "nat \<Rightarrow> real"

text \<open>
  The local state of \<open>_generate_flight_data\<close>: the number of random calls made so far, the
  local variable \<open>airline_factor\<close> (unbound until its first assignment, and kept from one
  loop pass to the next), and the list \<open>data\<close>.
\<close>

record generator =
  draws :: nat
  airline_factor :: "real option"
  rows :: "flight list"

definition draw :: "randomness \<Rightarrow> generator \<Rightarrow> real \<times> generator" where
  "draw rnd g = (sample_at rnd (draws g), g\<lparr>draws := Suc (draws g)\<rparr>)"

definition airlines :: "string list" where
  "airlines = [''Delta'', ''United'', ''American'', ''Southwest'', ''JetBlue'']"

definition delay_params :: "(string \<times> real \<times> real) list" where
  "delay_params = [(''Delta'', 15, 10), (''United'', 20, 5), (''American'', 10, 14),
                   (''Southwest'', 12, 8), (''JetBlue'', 30, 7)]"

definition airport_params :: "(string \<times> real \<times> real) list" where
  "airport_params = [(''SEA'', 30, 10), (''LAX'', 15, 375 / 100), (''LGA'', 10, 4),
                     (''DFW'', 15, 8), (''MIA'', 12, 6)]"

text \<open>\<open>weather.get(key, default)\<close> on a snapshot.\<close>

definition weather_get :: "snapshot \<Rightarrow> string \<Rightarrow> pyval \<Rightarrow> pyval" where
  "weather_get weather k dflt = (case map_of weather k of None \<Rightarrow> dflt | Some v \<Rightarrow> v)"

text \<open>\<open>v >= r\<close> and \<open>v <= r\<close> against a number: a \<open>TypeError\<close> unless \<open>v\<close> is a number.\<close>

definition py_ge :: "pyval \<Rightarrow> real \<Rightarrow> exn + bool" where
  "py_ge v r = (case as_number v of None \<Rightarrow> Inl TypeError | Some x \<Rightarrow> Inr (r \<le> x))"

definition py_le :: "pyval \<Rightarrow> real \<Rightarrow> exn + bool" where
  "py_le v r = (case as_number v of None \<Rightarrow> Inl TypeError | Some x \<Rightarrow> Inr (x \<le> r))"

definition need :: "exn \<Rightarrow> 'a option \<Rightarrow> exn + 'a" where
  "need e x = (case x of None \<Rightarrow> Inl e | Some v \<Rightarrow> Inr v)"

text \<open>
  The \<open>try\<close> block of one flight: the precipitation cell after the falsy value is replaced
  by 0.0, \<open>alpha\<close>, and the generator.  An exception inside the block is caught and logged;
  what was assigned before it stays assigned, and \<open>airline_factor\<close> keeps what it held.
\<close>

definition simulate_delay ::
  "randomness \<Rightarrow> string \<Rightarrow> pyval \<Rightarrow> pyval \<Rightarrow> generator \<Rightarrow> pyval \<times> real \<times> generator" where
  "simulate_delay rnd airline_name temp precip0 g =
     (let precip = (if \<not> truthy precip0 then PNum 0 else precip0) in
      case py_ge precip (3 / 10) of
        Inl e \<Rightarrow> (precip, 0, g)
      | Inr False \<Rightarrow>
          (case map_of delay_params airline_name of
             None \<Rightarrow> (precip, 0, g)
           | Some params \<Rightarrow>
               (case draw rnd g of (af, g') \<Rightarrow> (precip, 0, g'\<lparr>airline_factor := Some af\<rparr>)))
      | Inr True \<Rightarrow>
          (case draw rnd g of (alpha_rain, g1) \<Rightarrow>
            (case py_le temp 32 of
               Inl e \<Rightarrow> (precip, alpha_rain, g1)
             | Inr freezing \<Rightarrow>
                 (case (if freezing then draw rnd g1 else (alpha_rain, g1)) of (alpha, g2) \<Rightarrow>
                   (case map_of delay_params airline_name of
                      None \<Rightarrow> (precip, alpha, g2)
                    | Some params \<Rightarrow>
                        (case draw rnd g2 of (af, g3) \<Rightarrow>
                           (precip, alpha, g3\<lparr>airline_factor := Some af\<rparr>)))))))"

text \<open>
  One pass of \<open>for _ in range(num_flights)\<close>.  The defaults of the eight \<open>weather.get\<close>
  calls are drawn whether they are used or not.  After the \<open>try\<close> block nothing is caught:
  an unknown origin, a temperature or precipitation that is not a number, and an unbound
  \<open>airline_factor\<close> raise out of \<open>_generate_flight_data\<close>.
\<close>

definition flight_entry ::
  "randomness \<Rightarrow> snapshot \<Rightarrow> date \<Rightarrow> string \<Rightarrow> string \<Rightarrow> string \<Rightarrow> generator \<Rightarrow> exn + generator" where
  "flight_entry rnd weather target_date airline_name origin_code dest g =
     (let k = draws g;
          temp = weather_get weather ''temperature'' (PNum (sample_at rnd k));
          precip0 = weather_get weather ''precipitation'' (PNum (sample_at rnd (k + 1)));
          g0 = g\<lparr>draws := k + 8\<rparr>
      in case simulate_delay rnd airline_name temp precip0 g0 of (precip, alpha, g1) \<Rightarrow>
        and_then (need KeyError (map_of airport_params origin_code)) (\<lambda>params.
        case draw rnd g1 of (airport_factor, g2) \<Rightarrow>
        and_then (need TypeError (as_number temp)) (\<lambda>t.
        and_then (need UnboundLocalError (airline_factor g2)) (\<lambda>af.
        and_then (need TypeError (as_number precip)) (\<lambda>p.
          let temp_factor = (100 - t) * (1 / 100);
              base_delay = (1 / 2) * af + (1 / 2) * airport_factor + p * 20 + temp_factor + alpha;
              delay = (if base_delay > 0 then base_delay else 0)
          in Inr (g2\<lparr>rows := rows g2 @
                [\<lparr> date = target_date, airline = airline_name, origin = origin_code, destination = dest,
                   temperature = temp, precipitation = precip,
                   weather_condition = weather_get weather ''weather_condition'' (PStr ''Clear''),
                   wind_speed = weather_get weather ''wind_speed'' (PNum (sample_at rnd (k + 2))),
                   wind_direction = weather_get weather ''wind_direction'' (PNum (sample_at rnd (k + 3))),
                   visibility = weather_get weather ''visibility'' (PNum (sample_at rnd (k + 4))),
                   cloud_coverage = weather_get weather ''cloud_coverage'' (PNum (sample_at rnd (k + 5))),
                   humidity = weather_get weather ''humidity'' (PNum (sample_at rnd (k + 6))),
                   pressure = weather_get weather ''pressure'' (PNum (sample_at rnd (k + 7))),
                   delay_minutes = PNum delay,
                   weather_delay = PBool (delay > 30) \<rparr>]\<rparr>))))))"

text \<open>A loop body run \<open>n\<close> times, and a loop body run for each element; an exception ends the loop.\<close>

fun repeat :: "nat \<Rightarrow> ('s \<Rightarrow> exn + 's) \<Rightarrow> 's \<Rightarrow> exn + 's" where
  "repeat 0 body s = Inr s"
| "repeat (Suc n) body s = (case body s of Inl e \<Rightarrow> Inl e | Inr s' \<Rightarrow> repeat n body s')"

fun for_each :: "'a list \<Rightarrow> ('a \<Rightarrow> 's \<Rightarrow> exn + 's) \<Rightarrow> 's \<Rightarrow> exn + 's" where
  "for_each [] body s = Inr s"
| "for_each (x # xs) body s = (case body x s of Inl e \<Rightarrow> Inl e | Inr s' \<Rightarrow> for_each xs body s')"

text \<open>The body of the three nested loops, for one airline, origin and destination.\<close>

definition route ::
  "randomness \<Rightarrow> (string \<times> snapshot) list \<Rightarrow> date \<Rightarrow> string \<Rightarrow> string \<Rightarrow> string \<Rightarrow> generator \<Rightarrow> exn + generator" where
  "route rnd weather_data target_date airline_name origin_code dest g =
     (if origin_code \<noteq> dest
      then
        let weather = (case map_of weather_data origin_code of None \<Rightarrow> [] | Some w \<Rightarrow> w);
            num_flights = poisson_at rnd (draws g)
        in repeat num_flights (flight_entry rnd weather target_date airline_name origin_code dest)
             (g\<lparr>draws := Suc (draws g)\<rparr>)
      else Inr g)"

text \<open>\<open>_generate_flight_data(weather_data, target_date)\<close>: the rows of the frame it returns.\<close>

definition generate_flight_data ::
  "randomness \<Rightarrow> (string \<times> snapshot) list \<Rightarrow> date \<Rightarrow> exn + flight list" where
  "generate_flight_data rnd weather_data target_date =
     and_then
       (for_each airlines (\<lambda>airline_name.
          for_each (map fst AIRPORT_COORDINATES) (\<lambda>origin_code.
            for_each (map fst AIRPORT_COORDINATES) (\<lambda>dest.
              route rnd weather_data target_date airline_name origin_code dest)))
          \<lparr>draws = 0, airline_factor = None, rows = []\<rparr>)
       (\<lambda>g. Inr (rows g))"

text \<open>The invariant of a generated row: a non-negative delay, and the flag that says whether it exceeds 30.\<close>

definition delay_consistent :: "flight \<Rightarrow> bool" where
  "delay_consistent r = (\<exists>x. delay_minutes r = PNum x \<and> 0 \<le> x \<and> weather_delay r = PBool (30 < x))"

text \<open>
  A snapshot on which the simulator does not raise: its temperature, if it has one, is a
  number, and its precipitation, if it has one, is a number or falsy (\<open>None\<close> included).
\<close>

definition usable_weather :: "snapshot \<Rightarrow> bool" where
  "usable_weather weather =
     ((case map_of weather ''temperature'' of None \<Rightarrow> True | Some t \<Rightarrow> as_number t \<noteq> None)
      \<and> (case map_of weather ''precipitation'' of None \<Rightarrow> True | Some p \<Rightarrow> \<not> truthy p \<or> as_number p \<noteq> None))"

subsection \<open>Cleaning, storing and querying\<close>

text \<open>
  A data frame is the list of its rows; the empty list is the frame \<open>pd.DataFrame([])\<close>,
  which has no columns.  The table \<open>flight_data\<close> is the list of its rows in insertion
  order, each by the columns of the frame (the \<open>id\<close> and \<open>collection_timestamp\<close> that
  the database assigns are left out), or \<open>None\<close> while the table does not exist.
\<close>

type_synonym database = "flight list option"

definition cells :: "flight \<Rightarrow> pyval list" where
  "cells r = [temperature r, precipitation r, weather_condition r, wind_speed r, wind_direction r,
              visibility r, cloud_coverage r, humidity r, pressure r, delay_minutes r, weather_delay r]"

text \<open>A list or a dict in a cell is not hashable, and the database cannot bind it.\<close>

fun scalar :: "pyval \<Rightarrow> bool" where
  "scalar (PList xs) = False"
| "scalar (PDict kvs) = False"
| "scalar _ = True"

definition scalar_rows :: "flight list \<Rightarrow> bool" where
  "scalar_rows df = list_all (\<lambda>r. list_all scalar (cells r)) df"

text \<open>\<open>df.drop_duplicates()\<close>: of equal rows the first is kept.\<close>

fun drop_duplicates :: "flight list \<Rightarrow> flight list" where
  "drop_duplicates [] = []"
| "drop_duplicates (r # rs) = r # drop_duplicates (filter (\<lambda>r'. r' \<noteq> r) rs)"

text \<open>\<open>Series.mean()\<close>: the mean of the values present, NaN when there is none.\<close>

definition mean :: "real option list \<Rightarrow> real option" where
  "mean col = (let v = dropna col in if v = [] then None else Some (sum_list v / real (length v)))"

definition fill :: "pyval \<Rightarrow> pyval \<Rightarrow> pyval" where
  "fill v dflt = (if v = PNone then dflt else v)"

text \<open>
  \<open>_clean_data(df)\<close>.  The frame without columns has no column \<open>temperature\<close>; a
  temperature column that holds a string has no mean.  The dates are \<open>date\<close> objects
  already.
\<close>

definition clean_data :: "flight list \<Rightarrow> exn + flight list" where
  "clean_data df =
     (if \<not> scalar_rows df then Inl TypeError
      else
        let df1 = drop_duplicates df in
        if df1 = [] then Inl KeyError
        else
          and_then (float_column (map temperature df1)) (\<lambda>temps.
            Inr (map (\<lambda>r. r\<lparr> temperature := (case mean temps of
                                                  None \<Rightarrow> temperature r
                                                | Some m \<Rightarrow> fill (temperature r) (PNum m)),
                             precipitation := fill (precipitation r) (PNum 0),
                             weather_condition := fill (weather_condition r) (PStr ''Clear''),
                             delay_minutes := fill (delay_minutes r) (PNum 0),
                             weather_delay := PBool (truthy (fill (weather_delay r) (PBool False))) \<rparr>)
                  df1)))"

text \<open>
  \<open>_store_data(df)\<close>: \<open>to_sql(..., if_exists='append')\<close> adds the rows after those of the
  table, and creates the table when it does not exist.  An exception (a cell the database
  cannot bind, a frame without columns for a table to create) is logged and swallowed,
  and the table stays as it was.
\<close>

definition store_data :: "database \<Rightarrow> flight list \<Rightarrow> database" where
  "store_data db df =
     (if \<not> scalar_rows df then db
      else (case db of
              None \<Rightarrow> (if df = [] then None else Some df)
            | Some stored \<Rightarrow> Some (stored @ df)))"

text \<open>
  \<open>get_stored_data(start_date, end_date)\<close>.  A \<open>date\<close> is truthy, \<open>None\<close> is not, so the
  \<open>WHERE\<close> clause is there only when both bounds are given.  (The dates are compared as
  ISO texts, which for four-digit years is the order of the days.)  Without the table the
  query raises.
\<close>

definition get_stored_data :: "database \<Rightarrow> date option \<Rightarrow> date option \<Rightarrow> exn + flight list" where
  "get_stored_data db start_date end_date =
     (case db of
        None \<Rightarrow> Inl DatabaseError
      | Some stored \<Rightarrow>
          (case (start_date, end_date) of
             (Some s, Some e) \<Rightarrow> Inr (filter (\<lambda>r. s \<le> date r \<and> date r \<le> e) stored)
           | _ \<Rightarrow> Inr stored))"


subsection \<open>The collection run\<close>









section \<open>Sample inputs\<close>

text \<open>Concrete inputs on which the properties below are evaluated.\<close>

definition sample_flight :: "real \<Rightarrow> real \<Rightarrow> real \<Rightarrow> flight" where
  "sample_flight t p d = \<lparr> date = 0, airline = ''Delta'', origin = ''SEA'', destination = ''LAX'',
     temperature = PNum t, precipitation = PNum p, weather_condition = PStr ''Clear'',
     wind_speed = PNum 0, wind_direction = PNum 0, visibility = PNum 10, cloud_coverage = PNum 0,
     humidity = PNum 50, pressure = PNum 1013, delay_minutes = PNum d, weather_delay = PBool (d > 30) \<rparr>"

definition sample_frame :: "flight list" where
  "sample_frame = [sample_flight 10 (1/2) 0, sample_flight 20 0 0, sample_flight 30 0 0,
                   sample_flight 40 0 0, sample_flight 50 (1/10) 0]"

definition sample_model :: trained_model where
  "sample_model = \<lparr> scaler_transform = (\<lambda>v. v), model_predict = (\<lambda>v. 20), cv_rmse = 5 \<rparr>"

definition sample_draws :: randomness where
  "sample_draws =
     \<lparr> poisson_at = (\<lambda>k. if k = 0 then 1 else 0),
       sample_at = (\<lambda>k. if k = 1 then 50 else if k = 2 then 1 / 10 else if k = 9 then 15
                         else if k = 10 then 30 else 7) \<rparr>"

definition sample_generated :: flight where
  "sample_generated =
     \<lparr> date = 20068, airline = ''Delta'', origin = ''SEA'', destination = ''LAX'',
       temperature = PNum 50, precipitation = PNum (1 / 10), weather_condition = PStr ''Clear'',
       wind_speed = PNum 7, wind_direction = PNum 7, visibility = PNum 7, cloud_coverage = PNum 7,
       humidity = PNum 7, pressure = PNum 7, delay_minutes = PNum 25, weather_delay = PBool False \<rparr>"

definition sample_coordinates :: "(string \<times> pyval) list" where
  "sample_coordinates = [(''lat'', PNum (474484 / 10000)), (''lon'', PNum (- (1223790 / 10000)))]"

definition sample_py_str :: "pyval \<Rightarrow> string" where
  "sample_py_str v = (if v = PNum (474484 / 10000) then ''47.4484''
                      else if v = PNum (- (1223790 / 10000)) then ''-122.379'' else ''?'')"

definition sample_observation :: pyval where
  "sample_observation =
     PDict [(''properties'', PDict
       [(''temperature'', PDict [(''value'', PNum 10)]),
        (''textDescription'', PStr ''Light Rain''),
        (''relativeHumidity'', PDict [(''value'', PNum 80)]),
        (''barometricPressure'', PDict [(''value'', PNum 101000)]),
        (''windSpeed'', PDict [(''value'', PNum 10)]),
        (''visibility'', PDict [(''value'', PNum 10000)]),
        (''layers'', PList [PDict [(''amount'', PStr ''FEW'')], PDict [(''amount'', PStr ''OVC'')]]),
        (''precipitationLastHour'', PDict [(''value'', PNone)])])]"

definition sample_net :: "string \<Rightarrow> response" where
  "sample_net url =
     (if url = ''https://api.weather.gov/points/47.4484,-122.379''
      then Response 200 (Some (PDict [(''properties'', PDict [(''observationStations'', PStr ''https://api.weather.gov/gridpoints/SEW/124,61/stations'')])]))
      else if url = ''https://api.weather.gov/gridpoints/SEW/124,61/stations''
      then Response 200 (Some (PDict [(''features'', PList [PDict [(''id'', PStr ''https://api.weather.gov/stations/KSEA'')]])]))
      else if url = ''https://api.weather.gov/stations/KSEA/observations/latest''
      then Response 200 (Some sample_observation)
      else Response 404 None)"

definition sample_env :: "time \<Rightarrow> env" where
  "sample_env t = \<lparr> net = sample_net, now = t, py_str = sample_py_str, py_float = (\<lambda>s. None) \<rparr>"


text \<open>Noon of 2024-12-11.\<close>

definition noon :: time where
  "noon = 20068 * microseconds_per_day + 12 * 3600 * 1000000"

definition sample_snapshot :: snapshot where
  "sample_snapshot =
      [(''temperature'', PNum 50), (''feels_like'', PNum 68),
       (''humidity'', PNum 80), (''pressure'', PNum 1010),
       (''wind_speed'', PNum (2237 / 100)), (''wind_direction'', PNum 0),
       (''visibility'', PNum (621371 / 100000)),
       (''cloud_coverage'', PNum 100),
       (''weather_condition'', PStr ''Rain''), (''precipitation'', PNone),
       (''timestamp'', PStr ''2024-12-11T12:00:00'')]"

definition sample_urls :: "string list" where
  "sample_urls = [''https://api.weather.gov/points/47.4484,-122.379'',
   ''https://api.weather.gov/gridpoints/SEW/124,61/stations'',
   ''https://api.weather.gov/stations/KSEA/observations/latest'']"

text \<open>The result of a first, successful call for Seattle at noon.\<close>

definition after_first_call :: "snapshot \<times> weather_service" where
  "after_first_call = get_weather (sample_env noon) (new_weather_service 0) ''SEA'' sample_coordinates (Some noon)"













text \<open>
  What a run without network works with: the default snapshot for each airport, and the one
  flight that the sample draws generate from it on a given day.
\<close>

definition default_weather_data :: "(string \<times> snapshot) list" where
  "default_weather_data = map (\<lambda>(code, coordinates). (code, default_weather (new_weather_service 0))) AIRPORT_COORDINATES"

definition offline_row :: "date \<Rightarrow> flight" where
  "offline_row d =
     \<lparr> date = d, airline = ''Delta'', origin = ''SEA'', destination = ''LAX'',
       temperature = PNum 68, precipitation = PNum 0, weather_condition = PStr ''Clear'',
       wind_speed = PNum 0, wind_direction = PNum 0, visibility = PNum 10, cloud_coverage = PNum 0,
       humidity = PNum 50, pressure = PNum (101325 / 100), delay_minutes = PNum (2282 / 100),
       weather_delay = PBool False \<rparr>"

section \<open>Properties\<close>

subsection \<open>Loading the model\<close>

lemma get_model_pickled: "get_model (Pickled m) = Inr m"
  by (simp add: get_model_def)

text \<open>
  C9.  When the snapshot file is absent, unreadable or corrupt, \<open>get_model\<close> raises to its
  caller: it returns no model.  (It is the \<open>return results\<close> after the logging handler that
  raises, with \<open>UnboundLocalError\<close>.)
\<close>

theorem get_model_fails_loudly:
  "(\<forall>m. f \<noteq> Pickled m) \<Longrightarrow> get_model f = Inl UnboundLocalError \<and> (\<forall>m. get_model f \<noteq> Inr m)"
  by (cases f) (simp_all add: get_model_def)

theorem get_model_fails_loudly_witness:
  "get_model (NoFile :: nat snapshot_file) = Inl UnboundLocalError
   \<and> get_model (Unreadable :: nat snapshot_file) = Inl UnboundLocalError
   \<and> get_model (Corrupt :: nat snapshot_file) = Inl UnboundLocalError"
  using get_model_fails_loudly [of "NoFile :: nat snapshot_file"]
        get_model_fails_loudly [of "Unreadable :: nat snapshot_file"]
        get_model_fails_loudly [of "Corrupt :: nat snapshot_file"]
  by simp

subsection \<open>Severe weather at training and at inference time\<close>

lemma float_column_length: "float_column vs = Inr cs \<Longrightarrow> length cs = length vs"
  by (induction vs arbitrary: cs) (auto split: sum.splits)

lemma map_zip_drop_first:
  "length xs = length zs \<Longrightarrow> map (\<lambda>(r, z). h z) (zip xs zs) = map h zs"
  by (induction xs zs rule: list_induct2) auto

text \<open>
  C6.  On a frame whose temperature and precipitation columns are numeric, the training
  path flags a row as severe weather when its temperature is below the frame's 20th
  percentile and its precipitation above the frame's 80th percentile, whereas the inference
  path flags the input when its temperature is above the frame's 80th percentile and its
  precipitation above the frame's 80th percentile.  Both paths return.
\<close>

theorem severe_weather_two_definitions:
  assumes "float_column (map temperature data) = Inr ts"
    and "float_column (map precipitation data) = Inr ps"
  shows "(\<exists>fs. engineer_features data = Inr fs \<and>
            map f_severe_weather fs =
              map (\<lambda>(t, p). nan_less t (quantile (2 / 10) ts) \<and> nan_less (quantile (8 / 10) ps) p) (zip ts ps))
       \<and> (\<exists>v. inference_features data temp precip d = Inr v \<and>
            v ! 5 = (if nan_less (quantile (8 / 10) ts) (Some temp) \<and> nan_less (quantile (8 / 10) ps) (Some precip)
                     then 1 else 0))"
proof -
  have len: "length data = length (zip ts ps)"
    using float_column_length[OF assms(1)] float_column_length[OF assms(2)] by simp
  have "map f_severe_weather
          (map (\<lambda>(r, t, p).
                  \<lparr> f_temperature = t, f_precipitation = p, f_day_of_week = dayofweek (date r),
                    f_month = month (date r), f_temp_precip_interaction = nan_mult t p,
                    f_severe_weather =
                      (nan_less t (quantile (2 / 10) ts) \<and> nan_less (quantile (8 / 10) ps) p) \<rparr>)
             (zip data (zip ts ps)))
        = map (\<lambda>(r, z). (\<lambda>(t, p). nan_less t (quantile (2 / 10) ts) \<and> nan_less (quantile (8 / 10) ps) p) z)
            (zip data (zip ts ps))"
    by (simp add: case_prod_unfold comp_def)
  also have "\<dots> = map (\<lambda>(t, p). nan_less t (quantile (2 / 10) ts) \<and> nan_less (quantile (8 / 10) ps) p) (zip ts ps)"
    by (rule map_zip_drop_first[OF len])
  finally have train: "\<exists>fs. engineer_features data = Inr fs \<and>
            map f_severe_weather fs =
              map (\<lambda>(t, p). nan_less t (quantile (2 / 10) ts) \<and> nan_less (quantile (8 / 10) ps) p) (zip ts ps)"
    using assms by (simp add: engineer_features_def)
  have infer: "\<exists>v. inference_features data temp precip d = Inr v \<and>
            v ! 5 = (if nan_less (quantile (8 / 10) ts) (Some temp) \<and> nan_less (quantile (8 / 10) ps) (Some precip)
                     then 1 else 0)"
    using assms by (simp add: inference_features_def inference_severe_weather_def)
  from train infer show ?thesis by blast
qed

lemma sample_temps:
  "float_column (map temperature sample_frame) = Inr [Some 10, Some 20, Some 30, Some 40, Some 50]"
  by (simp add: sample_frame_def sample_flight_def)

lemma sample_precs:
  "float_column (map precipitation sample_frame) = Inr [Some (1/2), Some 0, Some 0, Some 0, Some (1/10)]"
  by (simp add: sample_frame_def sample_flight_def)

lemma sample_temp_q20: "quantile (2 / 10) [Some 10, Some 20, Some 30, Some 40, Some 50] = Some 18"
  by (simp add: quantile_def Let_def nth_Cons')

lemma sample_temp_q80: "quantile (8 / 10) [Some 10, Some 20, Some 30, Some 40, Some 50] = Some 42"
  by (simp add: quantile_def Let_def nth_Cons')

lemma sample_prec_q80: "quantile (8 / 10) [Some (1/2), Some 0, Some 0, Some 0, Some (1/10)] = Some (18/100)"
  by (simp add: quantile_def Let_def nth_Cons')

text \<open>
  On the sample frame the two definitions disagree: the row with temperature 10 and
  precipitation 0.5 is severe at training time, the same pair is not severe at inference
  time, and the pair 50, 0.5 is.
\<close>

theorem severe_weather_two_definitions_witness:
  "(\<exists>fs. engineer_features sample_frame = Inr fs \<and>
          map f_severe_weather fs = [True, False, False, False, False])
   \<and> (\<exists>v. inference_features sample_frame 10 (1/2) 0 = Inr v \<and> v ! 5 = 0)
   \<and> (\<exists>v. inference_features sample_frame 50 (1/2) 0 = Inr v \<and> v ! 5 = 1)"
  using severe_weather_two_definitions[OF sample_temps sample_precs, of 10 "1/2" 0]
        severe_weather_two_definitions[OF sample_temps sample_precs, of 50 "1/2" 0]
  unfolding sample_temp_q20 sample_temp_q80 sample_prec_q80 by simp

subsection \<open>The prediction interval\<close>

text \<open>
  C7.  Every prediction that is returned has \<open>lower_bound = max(0, point - cv_rmse * 1.96)\<close>
  and \<open>upper_bound = point + cv_rmse * 1.96\<close>; with \<open>cv_rmse = 5\<close> and the point estimate
  20 the bounds are 10.2 and 29.8.
\<close>

theorem prediction_interval:
  "(predict_with_interval df model temp precip d conf = Inr r \<longrightarrow>
      lower_bound r = max 0 (prediction r - cv_rmse model * (196 / 100))
      \<and> upper_bound r = prediction r + cv_rmse model * (196 / 100))
   \<and> (predict_with_interval df model temp precip d conf = Inr r \<longrightarrow> cv_rmse model = 5 \<longrightarrow> prediction r = 20 \<longrightarrow>
      lower_bound r = 102 / 10 \<and> upper_bound r = 298 / 10)"
  by (auto simp: predict_with_interval_def Let_def split: option.splits sum.splits)

lemma sample_prediction:
  "predict_with_interval sample_frame sample_model 75 (1/2) (Some 20068) (95/100)
     = Inr \<lparr> prediction = 20, lower_bound = 102 / 10, upper_bound = 298 / 10, confidence = 95 / 100 \<rparr>"
  by (simp add: predict_with_interval_def inference_features_def sample_temps sample_precs sample_model_def)

theorem prediction_interval_witness:
  "predict_with_interval sample_frame sample_model 75 (1/2) (Some 20068) (95/100)
     = Inr \<lparr> prediction = 20, lower_bound = 102 / 10, upper_bound = 298 / 10, confidence = 95 / 100 \<rparr>
   \<and> lower_bound \<lparr> prediction = 20, lower_bound = 102 / 10, upper_bound = 298 / 10, confidence = 95 / 100 \<rparr>
       = max 0 (20 - cv_rmse sample_model * (196 / 100))"
  using prediction_interval[of sample_frame sample_model 75 "1/2" "Some 20068" "95/100"
          "\<lparr> prediction = 20, lower_bound = 102 / 10, upper_bound = 298 / 10, confidence = 95 / 100 \<rparr>"]
        sample_prediction
  by (simp add: sample_model_def)

subsection \<open>Severity buckets\<close>

lemma set_unique: "set (unique xs) = set xs"
  by (induction xs rule: unique.induct) auto

lemma distinct_unique: "distinct (unique xs)"
  by (induction xs rule: unique.induct) (auto simp: set_unique)

lemma length_unique: "length (unique xs) = card (set xs)"
  using distinct_card[OF distinct_unique, of xs] by (simp add: set_unique)

text \<open>With a number of distinct edges other than one more than the labels, \<open>qcut\<close> raises.\<close>

lemma qcut_too_few_bins:
  assumes "card (set (quartile_edges col)) \<noteq> Suc (length labels)"
  shows "qcut col labels = Inl ValueError"
proof -
  have "quartile_edges col \<noteq> []"
    by (simp add: quartile_edges_def)
  then have "0 < card (set (quartile_edges col))"
    by (simp add: card_gt_0_iff)
  with assms have "length labels \<noteq> length (unique (quartile_edges col)) - 1"
    by (simp add: length_unique)
  then show ?thesis by (simp add: qcut_def Let_def)
qed

text \<open>
  C8.  When the delay values have fewer than four distinct quartile cut points (the
  quantiles at 0, 1/4, 1/2, 3/4 and 1), the severity step does not raise: it gives every
  row the bucket \<open>Low\<close>.
\<close>

theorem severity_degenerate_all_low:
  assumes "float_column (map delay_minutes df) = Inr col"
    and "card (set (quartile_edges col)) < 4"
  shows "weather_severity df = replicate (length df) ''Low''"
proof -
  have "qcut col [''Low'', ''Moderate'', ''High'', ''Severe''] = Inl ValueError"
    using assms(2) by (intro qcut_too_few_bins) simp
  then show ?thesis using assms(1) by (simp add: weather_severity_def)
qed

lemma tied_delays_column:
  "float_column (map delay_minutes [sample_flight 0 0 1, sample_flight 0 0 1, sample_flight 0 0 1, sample_flight 0 0 5])
     = Inr [Some 1, Some 1, Some 1, Some 5]"
  by (simp add: sample_flight_def)

lemma tied_delays_edges:
  "quartile_edges [Some 1, Some 1, Some 1, Some 5] = [Some 1, Some 1, Some 1, Some 2, Some 5]"
  by (simp add: quartile_edges_def quantile_def Let_def nth_Cons')

theorem severity_degenerate_all_low_witness:
  "weather_severity [sample_flight 0 0 1, sample_flight 0 0 1, sample_flight 0 0 1, sample_flight 0 0 5]
     = [''Low'', ''Low'', ''Low'', ''Low'']"
  using severity_degenerate_all_low[OF tied_delays_column] by (simp add: tied_delays_edges)

text \<open>
  Two distinct delay values are not enough for the fallback: the interpolated edges are
  all different, and the rows get the first and the last bucket.
\<close>

lemma two_values_not_all_low:
  "weather_severity [sample_flight 0 0 0, sample_flight 0 0 1] = [''Low'', ''Severe'']"
  by (simp add: weather_severity_def sample_flight_def qcut_def quartile_edges_def quantile_def
      bin_id_def Let_def nth_Cons')

subsection \<open>The flight simulator\<close>

lemma repeat_invariant:
  assumes step: "\<And>s s'. P s \<Longrightarrow> body s = Inr s' \<Longrightarrow> P s'"
  shows "P s \<Longrightarrow> repeat n body s = Inr s' \<Longrightarrow> P s'"
proof (induction n arbitrary: s)
  case 0
  then show ?case by simp
next
  case (Suc n)
  then show ?case by (auto split: sum.splits dest: step)
qed

lemma for_each_invariant:
  assumes step: "\<And>x s s'. P s \<Longrightarrow> body x s = Inr s' \<Longrightarrow> P s'"
  shows "P s \<Longrightarrow> for_each xs body s = Inr s' \<Longrightarrow> P s'"
proof (induction xs arbitrary: s)
  case Nil
  then show ?case by simp
next
  case (Cons x xs)
  then show ?case by (auto split: sum.splits dest: step)
qed

lemma flight_entry_rows:
  assumes "flight_entry rnd weather d a orig dest g = Inr g'"
  shows "\<exists>r. rows g' = rows g @ [r] \<and> delay_consistent r"
proof -
  obtain precip alpha g1 where sd: "simulate_delay rnd a (weather_get weather ''temperature'' (PNum (sample_at rnd (draws g))))
      (weather_get weather ''precipitation'' (PNum (sample_at rnd (draws g + 1)))) (g\<lparr>draws := draws g + 8\<rparr>) = (precip, alpha, g1)"
    by (cases "simulate_delay rnd a (weather_get weather ''temperature'' (PNum (sample_at rnd (draws g))))
      (weather_get weather ''precipitation'' (PNum (sample_at rnd (draws g + 1)))) (g\<lparr>draws := draws g + 8\<rparr>)") auto
  have rows1: "rows g1 = rows g"
    using sd by (auto simp: simulate_delay_def Let_def draw_def split: sum.splits bool.splits option.splits if_splits prod.splits)
  show ?thesis
    using assms rows1 unfolding flight_entry_def Let_def sd
    by (auto simp: and_then_def need_def draw_def delay_consistent_def split: option.splits prod.splits)
qed

lemma flight_entry_invariant:
  assumes "\<forall>r \<in> set (rows g). delay_consistent r" and "flight_entry rnd weather d a orig dest g = Inr g'"
  shows "\<forall>r \<in> set (rows g'). delay_consistent r"
  using flight_entry_rows[OF assms(2)] assms(1) by auto

lemma route_invariant:
  assumes "\<forall>r \<in> set (rows g). delay_consistent r" and "route rnd wd d a orig dest g = Inr g'"
  shows "\<forall>r \<in> set (rows g'). delay_consistent r"
proof (cases "orig = dest")
  case True
  with assms show ?thesis by (simp add: route_def)
next
  case False
  let ?w = "case map_of wd orig of None \<Rightarrow> [] | Some w \<Rightarrow> w"
  have start: "\<forall>r \<in> set (rows (g\<lparr>draws := Suc (draws g)\<rparr>)). delay_consistent r"
    using assms(1) by simp
  have run: "repeat (poisson_at rnd (draws g)) (flight_entry rnd ?w d a orig dest) (g\<lparr>draws := Suc (draws g)\<rparr>) = Inr g'"
    using assms(2) False by (simp add: route_def Let_def)
  show ?thesis
    by (rule repeat_invariant[where P = "\<lambda>g. \<forall>r \<in> set (rows g). delay_consistent r", OF _ start run])
       (rule flight_entry_invariant)
qed

text \<open>
  C5.  Every flight record that the simulator emits, whatever the weather input and the
  random draws, has a non-negative \<open>delay_minutes\<close>, and its \<open>weather_delay\<close> is true
  exactly when \<open>delay_minutes\<close> is greater than 30.
\<close>

theorem generated_flights_delay_invariant:
  assumes "generate_flight_data rnd weather_data target_date = Inr flights" and "r \<in> set flights"
  shows "\<exists>x. delay_minutes r = PNum x \<and> 0 \<le> x \<and> weather_delay r = PBool (30 < x)"
proof -
  let ?P = "\<lambda>g. \<forall>r \<in> set (rows g). delay_consistent r"
  obtain g where loops: "for_each airlines (\<lambda>airline_name.
          for_each (map fst AIRPORT_COORDINATES) (\<lambda>origin_code.
            for_each (map fst AIRPORT_COORDINATES) (\<lambda>dest.
              route rnd weather_data target_date airline_name origin_code dest)))
          \<lparr>draws = 0, airline_factor = None, rows = []\<rparr> = Inr g" and fl: "flights = rows g"
    using assms(1) by (auto simp: generate_flight_data_def and_then_def split: sum.splits)
  have "?P g"
  proof (rule for_each_invariant[where P = ?P, OF _ _ loops])
    show "?P \<lparr>draws = 0, airline_factor = None, rows = []\<rparr>" by simp
  next
    fix a s s'
    assume "?P s" and "for_each (map fst AIRPORT_COORDINATES) (\<lambda>origin_code.
            for_each (map fst AIRPORT_COORDINATES) (\<lambda>dest.
              route rnd weather_data target_date a origin_code dest)) s = Inr s'"
    then show "?P s'"
    proof (rule for_each_invariant[where P = ?P, rotated 1])
      fix orig t t'
      assume "?P t" and "for_each (map fst AIRPORT_COORDINATES) (\<lambda>dest.
              route rnd weather_data target_date a orig dest) t = Inr t'"
      then show "?P t'"
        by (rule for_each_invariant[where P = ?P, rotated 1]) (rule route_invariant)
    qed
  qed
  with assms(2) fl show ?thesis by (simp add: delay_consistent_def)
qed

lemma sample_generation: "generate_flight_data sample_draws [] 20068 = Inr [sample_generated]"
  by code_simp

theorem generated_flights_delay_invariant_witness:
  "generate_flight_data sample_draws [] 20068 = Inr [sample_generated]
   \<and> (\<exists>x. delay_minutes sample_generated = PNum x \<and> 0 \<le> x \<and> weather_delay sample_generated = PBool (30 < x))"
  using generated_flights_delay_invariant[OF sample_generation, of sample_generated] sample_generation
  by simp

text \<open>The simulator runs to its end when the weather it reads is numeric.\<close>

lemma repeat_returns:
  assumes "\<And>s. \<exists>s'. body s = Inr s'"
  shows "\<exists>s'. repeat n body s = Inr s'"
proof (induction n arbitrary: s)
  case 0
  show ?case by simp
next
  case (Suc n)
  obtain s1 where "body s = Inr s1" using assms by blast
  with Suc show ?case by simp
qed

lemma for_each_returns:
  assumes "\<And>x s. x \<in> set xs \<Longrightarrow> \<exists>s'. body x s = Inr s'"
  shows "\<exists>s'. for_each xs body s = Inr s'"
  using assms
proof (induction xs arbitrary: s)
  case Nil
  show ?case by simp
next
  case (Cons x xs)
  obtain s1 where "body x s = Inr s1" using Cons.prems[of x s] by auto
  moreover have "\<exists>s'. for_each xs body s1 = Inr s'"
    by (rule Cons.IH) (simp add: Cons.prems)
  ultimately show ?case by simp
qed

lemma simulate_delay_binds:
  assumes "as_number temp \<noteq> None" and "\<not> truthy precip0 \<or> as_number precip0 \<noteq> None"
    and "map_of delay_params a \<noteq> None"
    and "simulate_delay rnd a temp precip0 g = (precip, alpha, g1)"
  shows "airline_factor g1 \<noteq> None \<and> as_number precip \<noteq> None"
  using assms
  by (auto simp: simulate_delay_def Let_def py_ge_def py_le_def draw_def
        split: option.splits sum.splits bool.splits if_splits prod.splits)

lemma flight_entry_returns:
  assumes "usable_weather weather" and "map_of delay_params a \<noteq> None" and "map_of airport_params orig \<noteq> None"
  shows "\<exists>g'. flight_entry rnd weather d a orig dest g = Inr g'"
proof -
  let ?temp = "weather_get weather ''temperature'' (PNum (sample_at rnd (draws g)))"
  let ?precip0 = "weather_get weather ''precipitation'' (PNum (sample_at rnd (draws g + 1)))"
  have t: "as_number ?temp \<noteq> None"
    using assms(1) by (auto simp: usable_weather_def weather_get_def split: option.splits)
  have p: "\<not> truthy ?precip0 \<or> as_number ?precip0 \<noteq> None"
    using assms(1) by (auto simp: usable_weather_def weather_get_def split: option.splits)
  obtain precip alpha g1 where sd: "simulate_delay rnd a ?temp ?precip0 (g\<lparr>draws := draws g + 8\<rparr>) = (precip, alpha, g1)"
    by (cases "simulate_delay rnd a ?temp ?precip0 (g\<lparr>draws := draws g + 8\<rparr>)") auto
  from simulate_delay_binds[OF t p assms(2) sd]
  have "airline_factor g1 \<noteq> None" and "as_number precip \<noteq> None" by auto
  with t assms(3) show ?thesis
    unfolding flight_entry_def Let_def sd
    by (auto simp: and_then_def need_def draw_def split: option.splits prod.splits)
qed

lemma airline_has_params: "a \<in> set airlines \<Longrightarrow> map_of delay_params a \<noteq> None"
  by (auto simp: map_of_eq_None_iff airlines_def delay_params_def)

lemma airport_has_params:
  assumes "orig \<in> set (map fst AIRPORT_COORDINATES)"
  shows "map_of airport_params orig \<noteq> None"
proof -
  from assms have "orig = ''SEA'' \<or> orig = ''LAX'' \<or> orig = ''LGA'' \<or> orig = ''DFW'' \<or> orig = ''MIA''"
    by (simp add: AIRPORT_COORDINATES_def)
  then show ?thesis
    by (elim disjE) (simp_all add: airport_params_def)
qed

text \<open>
  On weather that is usable for every airport the simulator returns its rows, whatever the
  random draws; so it does on the snapshots the gateway falls back to, and without weather.
\<close>

lemma generate_flight_data_returns:
  assumes "\<And>code weather. map_of weather_data code = Some weather \<Longrightarrow> usable_weather weather"
  shows "\<exists>flights. generate_flight_data rnd weather_data target_date = Inr flights"
proof -
  have route_ok: "\<exists>g'. route rnd weather_data target_date a orig dest g = Inr g'"
    if "a \<in> set airlines" and "orig \<in> set (map fst AIRPORT_COORDINATES)" for a orig dest g
  proof -
    have "usable_weather (case map_of weather_data orig of None \<Rightarrow> [] | Some w \<Rightarrow> w)"
    proof (cases "map_of weather_data orig")
      case None
      then show ?thesis by (simp add: usable_weather_def)
    next
      case (Some w)
      with assms[OF Some] show ?thesis by simp
    qed
    then show ?thesis
      unfolding route_def Let_def
      by (auto intro!: repeat_returns flight_entry_returns airline_has_params[OF that(1)]
            airport_has_params[OF that(2)])
  qed
  have "\<exists>g. for_each airlines (\<lambda>airline_name.
          for_each (map fst AIRPORT_COORDINATES) (\<lambda>origin_code.
            for_each (map fst AIRPORT_COORDINATES) (\<lambda>dest.
              route rnd weather_data target_date airline_name origin_code dest)))
          \<lparr>draws = 0, airline_factor = None, rows = []\<rparr> = Inr g"
    by (intro for_each_returns route_ok)
  then show ?thesis
    by (auto simp: generate_flight_data_def and_then_def)
qed

lemma default_weather_usable: "usable_weather (default_weather (new_weather_service t))"
  by (simp add: usable_weather_def new_weather_service_def)

subsection \<open>Querying the table\<close>

text \<open>
  C10.  With only one bound given, \<open>get_stored_data\<close> applies no date filter: it returns
  what it returns without bounds, the whole table.
\<close>

theorem get_stored_data_one_bound:
  "get_stored_data db (Some s) None = get_stored_data db None None
   \<and> get_stored_data db None (Some e) = get_stored_data db None None
   \<and> get_stored_data (Some stored) (Some s) None = Inr stored
   \<and> get_stored_data (Some stored) None (Some e) = Inr stored"
  by (simp add: get_stored_data_def split: option.splits)

theorem get_stored_data_one_bound_witness:
  "get_stored_data (Some [sample_flight 68 0 12, sample_flight 50 0 40]) (Some 1) None
     = Inr [sample_flight 68 0 12, sample_flight 50 0 40]
   \<and> get_stored_data (Some [sample_flight 68 0 12, sample_flight 50 0 40]) None (Some (-1))
     = Inr [sample_flight 68 0 12, sample_flight 50 0 40]
   \<and> get_stored_data (Some [sample_flight 68 0 12, sample_flight 50 0 40]) (Some 1) (Some 2) = Inr []"
  using get_stored_data_one_bound[of "Some [sample_flight 68 0 12, sample_flight 50 0 40]" 1 "-1"
          "[sample_flight 68 0 12, sample_flight 50 0 40]"]
  by (simp add: get_stored_data_def sample_flight_def)

subsection \<open>Storing twice\<close>

lemma clean_sample: "clean_data [sample_flight 68 0 12] = Inr [sample_flight 68 0 12]"
  by (simp add: clean_data_def scalar_rows_def cells_def sample_flight_def and_then_def mean_def fill_def)

text \<open>
  Stored twice, a cleaned one-row batch is in the table twice.
\<close>

theorem store_twice_keeps_both_copies:
  "clean_data [sample_flight 68 0 12] = Inr [sample_flight 68 0 12]
   \<and> store_data (store_data (Some []) [sample_flight 68 0 12]) [sample_flight 68 0 12]
       = Some [sample_flight 68 0 12, sample_flight 68 0 12]"
  by (simp add: clean_sample) (simp add: store_data_def scalar_rows_def cells_def sample_flight_def)

lemma set_drop_duplicates: "set (drop_duplicates df) = set df"
  by (induction df rule: drop_duplicates.induct) auto

lemma distinct_drop_duplicates: "distinct (drop_duplicates df)"
  by (induction df rule: drop_duplicates.induct) (auto simp: set_drop_duplicates)

lemma scalar_fill: "scalar v \<Longrightarrow> scalar d \<Longrightarrow> scalar (fill v d)"
  by (simp add: fill_def)

lemma clean_data_scalar:
  assumes "clean_data df = Inr c"
  shows "scalar_rows c"
proof -
  from assms have sc: "scalar_rows df"
    by (auto simp: clean_data_def split: if_splits)
  then have "scalar_rows (drop_duplicates df)"
    by (simp add: scalar_rows_def list_all_iff set_drop_duplicates)
  with assms sc show ?thesis
    by (auto simp: clean_data_def Let_def and_then_def scalar_rows_def list_all_iff cells_def
          intro!: scalar_fill split: if_splits sum.splits option.splits)
qed

lemma clean_data_length:
  "clean_data df = Inr c \<Longrightarrow> length c = length (drop_duplicates df)"
  by (auto simp: clean_data_def Let_def and_then_def split: if_splits sum.splits)

text \<open>
  C3, as the code has it.  Storing appends: after two calls the table holds its old rows,
  then the rows of the first batch, then the rows of the second, so a row that both batches
  hold is stored once for each.  Equal rows collapse only within one batch, in the cleaning
  step that precedes the store, which keeps one row of each set of equal rows.
\<close>

theorem store_appends_cleaned_batches:
  assumes "clean_data batch1 = Inr cleaned1" and "clean_data batch2 = Inr cleaned2"
  shows "store_data (store_data (Some stored) cleaned1) cleaned2 = Some (stored @ cleaned1 @ cleaned2)
       \<and> length cleaned1 = length (drop_duplicates batch1) \<and> distinct (drop_duplicates batch1)
       \<and> length cleaned2 = length (drop_duplicates batch2) \<and> distinct (drop_duplicates batch2)"
  using clean_data_scalar[OF assms(1)] clean_data_scalar[OF assms(2)]
        clean_data_length[OF assms(1)] clean_data_length[OF assms(2)]
  by (simp add: store_data_def distinct_drop_duplicates)

theorem store_appends_cleaned_batches_witness:
  "store_data (store_data (Some []) [sample_flight 68 0 12]) [sample_flight 68 0 12]
     = Some ([] @ [sample_flight 68 0 12] @ [sample_flight 68 0 12])"
  using store_appends_cleaned_batches[OF clean_sample clean_sample, of "[]"] by simp

subsection \<open>The weather gateway\<close>

lemma length_pad: "length (pad n x) = n"
  by (induction n arbitrary: x) auto

lemma length_isoformat: "length (isoformat d) = 10"
  by (simp add: isoformat_def length_pad split: prod.splits)

lemma cache_key_not_code: "cache_key airport_code t \<noteq> airport_code"
proof
  assume "cache_key airport_code t = airport_code"
  then have "length (cache_key airport_code t) = length airport_code" by simp
  then show False by (simp add: cache_key_def length_isoformat)
qed

text \<open>
  A call of \<open>get_weather\<close> never changes the cache entry under the key that a call for the
  same airport looks up: what it stores, it stores under the bare airport code.
\<close>

lemma get_weather_leaves_lookup_key:
  "cache (snd (get_weather w ws airport_code airport_data target)) (cache_key airport_code t)
     = cache ws (cache_key airport_code t)"
  by (auto simp: get_weather_def Let_def cache_key_not_code split: option.splits prod.splits sum.splits)

subsection \<open>Two calls within the cache's validity\<close>

lemma first_call_snapshot: "fst after_first_call = sample_snapshot"
  by code_simp

lemma first_call_sent: "sent (snd after_first_call) = sample_urls"
  by code_simp

lemma first_call_cache:
  "cache (snd after_first_call) ''SEA'' = Some \<lparr>entry_data = sample_snapshot, entry_timestamp = noon\<rparr>"
  by code_simp

lemma first_call_lookup_key: "cache (snd after_first_call) (cache_key ''SEA'' noon) = None"
  by code_simp

lemma second_call_sent:
  "sent (snd (get_weather (sample_env (noon + 60000000)) (snd after_first_call) ''SEA'' sample_coordinates (Some noon)))
     = sample_urls @ sample_urls"
  by code_simp

lemma second_call_timestamp:
  "map_of (fst (get_weather (sample_env (noon + 60000000)) (snd after_first_call) ''SEA'' sample_coordinates (Some noon)))
     ''timestamp'' = Some (PStr ''2024-12-11T12:01:00'')"
  by code_simp

text \<open>
  C2, on the code.  A first call for Seattle at noon fetches a snapshot with three requests
  and stores it under \<open>SEA\<close>; the key \<open>SEA_2024-12-11\<close> that a call looks up stays empty.
  A second call one minute later, for the same airport and date, sends the three requests
  again and returns a snapshot built at 12:01.
\<close>

theorem second_call_fetches_again:
  "fst after_first_call = sample_snapshot
   \<and> sent (snd after_first_call) = sample_urls
   \<and> cache (snd after_first_call) ''SEA'' = Some \<lparr>entry_data = sample_snapshot, entry_timestamp = noon\<rparr>
   \<and> cache (snd after_first_call) (cache_key ''SEA'' noon) = None
   \<and> sent (snd (get_weather (sample_env (noon + 60000000)) (snd after_first_call) ''SEA'' sample_coordinates (Some noon)))
       = sample_urls @ sample_urls
   \<and> map_of (fst (get_weather (sample_env (noon + 60000000)) (snd after_first_call) ''SEA'' sample_coordinates (Some noon)))
       ''timestamp'' = Some (PStr ''2024-12-11T12:01:00'')"
  using first_call_snapshot first_call_sent first_call_cache first_call_lookup_key second_call_sent
        second_call_timestamp
  by blast

subsection \<open>The fetch under failures of the external service\<close>























































subsection \<open>The collection run and the force flag\<close>
























end
